theory Spec2Isabelle
  imports Main "HOL-Library.Word"
begin

section \<open>Paths and strings\<close>

text \<open>
  A \<open>boost::filesystem::path\<close> is its path name, a string. \<open>operator/\<close> (version 3 of
  the library, POSIX separators) appends the right operand, putting one separator
  between the two unless the right operand is empty, the right operand starts with a
  separator, the left operand is empty, or the left operand already ends with one.
\<close>

type_synonym path = string

definition is_separator :: "char \<Rightarrow> bool" where
  "is_separator c = (c = CHR ''/'')"

definition path_append :: "path \<Rightarrow> path \<Rightarrow> path" where
  "path_append lhs rhs =
     (if rhs = [] then lhs
      else if is_separator (hd rhs) then lhs @ rhs
      else if lhs \<noteq> [] \<and> \<not> is_separator (last lhs) then lhs @ ''/'' @ rhs
      else lhs @ rhs)"

text \<open>
  \<open>std::to_string\<close> of an unsigned value: its decimal digits, most significant first.
\<close>

definition digit_char :: "nat \<Rightarrow> char" where
  "digit_char d = ''0123456789'' ! d"

function to_string :: "nat \<Rightarrow> string" where
  "to_string n = (if n < 10 then [digit_char n] else to_string (n div 10) @ [digit_char (n mod 10)])"
  by pat_completeness auto
termination
  by (relation "measure (\<lambda>n. n)") auto

declare to_string.simps [simp del]

section \<open>Time\<close>

text \<open>
  A \<open>Timestamp\<close> wraps an unsigned 64-bit number of milliseconds, a \<open>utils::TimeSpan\<close>
  is made by \<open>FromMilliseconds\<close> and read by \<open>millis()\<close>. The time supplier is not a
  pure function: its k-th call returns the k-th reading of the clock.
\<close>

type_synonym Timestamp = "64 word"

datatype TimeSpan = FromMilliseconds (millis: "64 word")

record Clock =
  readings :: "nat \<Rightarrow> Timestamp"
  reads :: nat

definition timeSupplier :: "Clock \<Rightarrow> Timestamp \<times> Clock" where
  "timeSupplier c = (readings c (reads c), c\<lparr>reads := Suc (reads c)\<rparr>)"

section \<open>Configuration\<close>

text \<open>
  The fields of the configuration that the sources under study read. The headers that
  declare them are not part of the sources; sizes and counts are unsigned.
\<close>

record NodeConfiguration =
  BlockDisruptorSize :: nat
  TransactionDisruptorSize :: nat
  BlockElementTraceInterval :: nat
  TransactionElementTraceInterval :: nat
  ShouldAbortWhenDispatcherIsFull :: bool
  ShouldAuditDispatcherInputs :: bool
  ShouldPrecomputeTransactionAddresses :: bool
  ShortLivedCacheBlockDuration :: TimeSpan
  ShortLivedCacheTransactionDuration :: TimeSpan
  MaxBlocksPerSyncAttempt :: nat

record BlockChainConfiguration =
  MaxBlockFutureTime :: TimeSpan
  MaxRollbackBlocks :: nat

record UserConfiguration =
  BootKey :: string
  DataDirectory :: string

type_synonym LogLevel = nat

record BasicLoggerConfiguration =
  Level :: LogLevel
  ComponentLevels :: "(string \<times> LogLevel) list"

record LoggingConfiguration =
  Console :: BasicLoggerConfiguration
  File :: BasicLoggerConfiguration

record LocalNodeConfiguration =
  BlockChain :: BlockChainConfiguration
  Node :: NodeConfiguration
  Logging :: LoggingConfiguration
  User :: UserConfiguration

section \<open>RollbackInfo\<close>

text \<open>
  Modelled from the spec: the state of \<open>RollbackInfo\<close> (RollbackInfo.h is not part of
  the sources). It holds the recent-events window it was constructed with, a pending
  in-flight counter and, for each of the results \<open>Committed\<close> and \<open>Ignored\<close>, a ring
  of \<open>(timestamp, delta)\<close> records; counters are 64-bit. Its time source is the time
  supplier of the service state.
\<close>

datatype RollbackResult = Committed | Ignored

datatype RollbackCounterType = RollbackCounterType_All | RollbackCounterType_Recent

record RollbackInfo =
  recentStatsTimeSpan :: TimeSpan
  pending :: "64 word"
  committedRing :: "(Timestamp \<times> 64 word) list"
  ignoredRing :: "(Timestamp \<times> 64 word) list"

text \<open>
  Modelled from the spec: the constructor of \<open>RollbackInfo\<close>, given the window; nothing
  is pending and no event is recorded.
\<close>

definition RollbackInfo_new :: "TimeSpan \<Rightarrow> RollbackInfo" where
  "RollbackInfo_new recentSpan =
     \<lparr>recentStatsTimeSpan = recentSpan, pending = 0, committedRing = [], ignoredRing = []\<rparr>"

text \<open>
  Modelled from the spec: \<open>RollbackInfo::increment\<close> adds one to the pending in-flight
  counter.
\<close>

definition increment :: "RollbackInfo \<Rightarrow> RollbackInfo" where
  "increment r = r\<lparr>pending := pending r + 1\<rparr>"

text \<open>
  Modelled from the spec: \<open>RollbackInfo::save\<close> folds the pending count into
  \<open>Committed\<close>, as a record stamped with the reading of the time supplier, and leaves
  nothing pending.
\<close>

definition save :: "Timestamp \<Rightarrow> RollbackInfo \<Rightarrow> RollbackInfo" where
  "save now r = r\<lparr>committedRing := committedRing r @ [(now, pending r)], pending := 0\<rparr>"

text \<open>Modelled from the spec: \<open>RollbackInfo::reset\<close> discards the pending count.\<close>

definition reset :: "RollbackInfo \<Rightarrow> RollbackInfo" where
  "reset r = r\<lparr>pending := 0\<rparr>"

text \<open>
  Modelled from the spec: \<open>RollbackInfo::counter\<close>. A query of the \<open>All\<close> family sums
  every record of the result asked for; a query of the \<open>Recent\<close> family leaves out the
  records older than the window, counted back from the reading of the time supplier at
  the query.
\<close>

definition ring_of :: "RollbackInfo \<Rightarrow> RollbackResult \<Rightarrow> (Timestamp \<times> 64 word) list" where
  "ring_of r res = (case res of Committed \<Rightarrow> committedRing r | Ignored \<Rightarrow> ignoredRing r)"

definition within_window :: "TimeSpan \<Rightarrow> Timestamp \<Rightarrow> Timestamp \<Rightarrow> bool" where
  "within_window span now ts = (unat now \<le> unat ts + unat (millis span))"

definition counter :: "RollbackInfo \<Rightarrow> Timestamp \<Rightarrow> RollbackResult \<Rightarrow> RollbackCounterType \<Rightarrow> 64 word" where
  "counter r now res ty =
     (case ty of
        RollbackCounterType_All \<Rightarrow> sum_list (map snd (ring_of r res))
      | RollbackCounterType_Recent \<Rightarrow>
          sum_list (map snd (filter (\<lambda>e. within_window (recentStatsTimeSpan r) now (fst e))
                                    (ring_of r res))))"

text \<open>
  The operations that the sync handlers apply to the rollback info, as data, and a run of
  them.
\<close>

datatype RollbackOp = Op_increment | Op_save Timestamp | Op_reset

fun apply_op :: "RollbackOp \<Rightarrow> RollbackInfo \<Rightarrow> RollbackInfo" where
  "apply_op Op_increment r = increment r"
| "apply_op (Op_save now) r = save now r"
| "apply_op Op_reset r = reset r"

section \<open>DispatcherService: the block-chain sync handlers\<close>

text \<open>
  The handlers work on shared objects of the service state: the local chain score, the
  rollback info and the collaborators they call (the state-change subscriber, the undo
  observer through \<open>chain::RollbackBlock\<close>, the log). The model threads a record of the
  score, the rollback info and the clock, and keeps the calls in the order the source
  makes them. A collaborator whose code is not part of the sources is taken to return
  normally. The chain score type is not part of the sources either: it is a type
  parameter on which \<open>+\<close> and \<open>-\<close> form a commutative group (the integers, or words
  of a fixed width with wrap-around). Of the five handlers, \<open>Processor\<close> and
  \<open>TransactionsChange\<close> are made by functions outside the sources and have no body
  here; the other three are the definitions below.
\<close>

record 's StateChangeInfo =
  ScoreDelta :: 's

datatype ('s, 'be, 'ob, 'os) SyncCall =
    Call_RollbackInfo_reset
  | Call_RollbackInfo_increment
  | Call_RollbackInfo_save
  | Call_log_rolling_back 'be
  | Call_RollbackBlock 'be 'ob 'os
  | Call_notifyScoreChange 's
  | Call_notifyStateChange "'s StateChangeInfo"

record ('s, 'be, 'ob, 'os) SyncWorld =
  localScore :: 's
  rollbackInfo :: RollbackInfo
  syncClock :: Clock
  calls :: "('s, 'be, 'ob, 'os) SyncCall list"

definition call :: "('s, 'be, 'ob, 'os) SyncCall \<Rightarrow> ('s, 'be, 'ob, 'os) SyncWorld
    \<Rightarrow> ('s, 'be, 'ob, 'os) SyncWorld" where
  "call c w = w\<lparr>calls := calls w @ [c]\<rparr>"

definition rollbackInfo_reset :: "('s, 'be, 'ob, 'os) SyncWorld \<Rightarrow> ('s, 'be, 'ob, 'os) SyncWorld" where
  "rollbackInfo_reset w = call Call_RollbackInfo_reset (w\<lparr>rollbackInfo := reset (rollbackInfo w)\<rparr>)"

definition rollbackInfo_increment :: "('s, 'be, 'ob, 'os) SyncWorld \<Rightarrow> ('s, 'be, 'ob, 'os) SyncWorld" where
  "rollbackInfo_increment w =
     call Call_RollbackInfo_increment (w\<lparr>rollbackInfo := increment (rollbackInfo w)\<rparr>)"

definition rollbackInfo_save :: "('s, 'be, 'ob, 'os) SyncWorld \<Rightarrow> ('s, 'be, 'ob, 'os) SyncWorld" where
  "rollbackInfo_save w =
     (let (now, c) = timeSupplier (syncClock w)
      in call Call_RollbackInfo_save (w\<lparr>rollbackInfo := save now (rollbackInfo w), syncClock := c\<rparr>))"

text \<open>
  \<open>syncHandlers.DifficultyChecker\<close>. \<open>chain::CheckDifficulties\<close> and the
  \<open>sub<BlockDifficultyCache>\<close> view of the cache are parameters; the former returns a
  \<open>size_t\<close>.
\<close>

definition DifficultyChecker ::
  "('dc \<Rightarrow> 'b list \<Rightarrow> BlockChainConfiguration \<Rightarrow> nat) \<Rightarrow> ('c \<Rightarrow> 'dc) \<Rightarrow> BlockChainConfiguration
   \<Rightarrow> 'b list \<Rightarrow> 'c \<Rightarrow> ('s, 'be, 'ob, 'os) SyncWorld \<Rightarrow> bool \<times> ('s, 'be, 'ob, 'os) SyncWorld" where
  "DifficultyChecker CheckDifficulties sub blockChainConfig blocks cache w =
     (let result = CheckDifficulties (sub cache) blocks blockChainConfig;
          w' = rollbackInfo_reset w
      in (length blocks = result, w'))"

text \<open>\<open>CreateSyncUndoBlockHandler\<close> and \<open>syncHandlers.UndoBlock\<close>.\<close>

definition CreateSyncUndoBlockHandler ::
  "'ob \<Rightarrow> 'be \<Rightarrow> 'os \<Rightarrow> ('s, 'be, 'ob, 'os) SyncWorld \<Rightarrow> ('s, 'be, 'ob, 'os) SyncWorld" where
  "CreateSyncUndoBlockHandler pUndoObserver blockElement state w =
     call (Call_RollbackBlock blockElement pUndoObserver state)
       (call (Call_log_rolling_back blockElement) w)"

definition UndoBlock ::
  "'ob \<Rightarrow> 'be \<Rightarrow> 'os \<Rightarrow> ('s, 'be, 'ob, 'os) SyncWorld \<Rightarrow> ('s, 'be, 'ob, 'os) SyncWorld" where
  "UndoBlock pUndoObserver blockElement observerState w =
     CreateSyncUndoBlockHandler pUndoObserver blockElement observerState (rollbackInfo_increment w)"

text \<open>\<open>syncHandlers.StateChange\<close>.\<close>

definition StateChange ::
  "('s::ab_group_add) StateChangeInfo \<Rightarrow> ('s, 'be, 'ob, 'os) SyncWorld \<Rightarrow> ('s, 'be, 'ob, 'os) SyncWorld" where
  "StateChange changeInfo w =
     (let w1 = w\<lparr>localScore := localScore w + ScoreDelta changeInfo\<rparr>;
          w2 = call (Call_notifyScoreChange (localScore w1)) w1;
          w3 = call (Call_notifyStateChange changeInfo) w2
      in rollbackInfo_save w3)"

section \<open>DispatcherService: the pipeline assembly\<close>

text \<open>
  The consumer factories (consumers/BlockConsumers.h, consumers/TransactionConsumers.h,
  consumers/AuditConsumer.h) are not part of the sources: a consumer is the name of its
  factory with the configuration values it is given. The collaborators each factory takes
  from the one service state (transaction registry, time supplier, validator, caches,
  storage, sinks) are left out.
\<close>

datatype InputSource = Local | Remote_Pull | Remote_Push

datatype HashCheckOptions = CreateHashCheckOptions TimeSpan NodeConfiguration

datatype ValidationPolicy = CreateParallelValidationPolicy string

datatype BlockConsumer =
    CreateBlockHashCalculatorConsumer
  | CreateBlockHashCheckConsumer HashCheckOptions
  | CreateBlockAddressExtractionConsumer
  | CreateBlockChainCheckConsumer nat TimeSpan
  | CreateBlockStatelessValidationConsumer ValidationPolicy

datatype TransactionConsumer =
    CreateTransactionHashCalculatorConsumer
  | CreateTransactionHashCheckConsumer HashCheckOptions
  | CreateTransactionAddressExtractionConsumer
  | CreateTransactionStatelessValidationConsumer ValidationPolicy

datatype DisruptorConsumer =
    FromBlockConsumer BlockConsumer
  | FromTransactionConsumer TransactionConsumer
  | CreateBlockChainSyncConsumer nat
  | CreateNewBlockConsumer InputSource
  | CreateNewTransactionsConsumer
  | CreateAuditConsumer string

text \<open>
  Modelled from the spec: \<open>DisruptorConsumersFromBlockConsumers\<close> (declared in
  consumers/BlockConsumers.h, which is not part of the sources) turns each block consumer
  into a disruptor consumer and keeps the order in which the consumers were added.
\<close>

definition DisruptorConsumersFromBlockConsumers :: "BlockConsumer list \<Rightarrow> DisruptorConsumer list" where
  "DisruptorConsumersFromBlockConsumers blockConsumers = map FromBlockConsumer blockConsumers"

text \<open>
  Modelled from the spec: \<open>DisruptorConsumersFromTransactionConsumers\<close> (declared in
  consumers/TransactionConsumers.h, which is not part of the sources) does the same to
  the transaction consumers.
\<close>

definition DisruptorConsumersFromTransactionConsumers ::
  "TransactionConsumer list \<Rightarrow> DisruptorConsumer list" where
  "DisruptorConsumersFromTransactionConsumers transactionConsumers =
     map FromTransactionConsumer transactionConsumers"

record ConsumerDispatcherOptions =
  DispatcherName :: string
  DisruptorSize :: nat
  ElementTraceInterval :: nat
  ShouldThrowIfFull :: bool

definition CreateBlockConsumerDispatcherOptions :: "NodeConfiguration \<Rightarrow> ConsumerDispatcherOptions" where
  "CreateBlockConsumerDispatcherOptions config =
     \<lparr>DispatcherName = ''block dispatcher'', DisruptorSize = BlockDisruptorSize config,
      ElementTraceInterval = BlockElementTraceInterval config,
      ShouldThrowIfFull = ShouldAbortWhenDispatcherIsFull config\<rparr>"

definition CreateTransactionConsumerDispatcherOptions ::
  "NodeConfiguration \<Rightarrow> ConsumerDispatcherOptions" where
  "CreateTransactionConsumerDispatcherOptions config =
     \<lparr>DispatcherName = ''transaction dispatcher'', DisruptorSize = TransactionDisruptorSize config,
      ElementTraceInterval = TransactionElementTraceInterval config,
      ShouldThrowIfFull = ShouldAbortWhenDispatcherIsFull config\<rparr>"

text \<open>
  What the registrar does to the service state, the locator, the thread pool and the
  file system, in the order of the calls, and the clock behind the time supplier.
\<close>

datatype BootCall =
    Call_pushIsolatedPool string
  | Call_pushServiceGroup string
  | Call_registerRootedService string
  | Call_registerService string
  | Call_serviceGroup_registerService string
  | Call_addTransactionsChangeHandler
  | Call_createNotificationPublisher
  | Call_setBlockRangeConsumerFactory
  | Call_setCompletionAwareBlockRangeConsumerFactory
  | Call_setTransactionRangeConsumerFactory
  | Call_tasks_push_back string
  | Call_log_enabling_auditing path
  | Call_create_directories path

record BootWorld =
  bootClock :: Clock
  bootCalls :: "BootCall list"

definition boot :: "BootCall \<Rightarrow> BootWorld \<Rightarrow> BootWorld" where
  "boot c w = w\<lparr>bootCalls := bootCalls w @ [c]\<rparr>"

datatype InspectorStep = statusSubscriber_flush | reclaimMemoryInspector

record ConsumerDispatcher =
  dispatcherOptions :: ConsumerDispatcherOptions
  dispatcherConsumers :: "DisruptorConsumer list"
  dispatcherInspector :: "InspectorStep list"

definition CreateConsumerDispatcher ::
  "LocalNodeConfiguration \<Rightarrow> ConsumerDispatcherOptions \<Rightarrow> DisruptorConsumer list \<Rightarrow> BootWorld
   \<Rightarrow> ConsumerDispatcher \<times> BootWorld" where
  "CreateConsumerDispatcher config options disruptorConsumers w =
     (let inspector = [statusSubscriber_flush, reclaimMemoryInspector] in
      if ShouldAuditDispatcherInputs (Node config) then
        (let auditPath0 =
               path_append (path_append (DataDirectory (User config)) ''audit'') (DispatcherName options);
             (now, c) = timeSupplier (bootClock w);
             auditPath = path_append auditPath0 (to_string (unat now));
             w1 = boot (Call_log_enabling_auditing auditPath) (w\<lparr>bootClock := c\<rparr>);
             w2 = boot (Call_create_directories auditPath) w1
         in (\<lparr>dispatcherOptions = options,
              dispatcherConsumers = CreateAuditConsumer auditPath # disruptorConsumers,
              dispatcherInspector = inspector\<rparr>, w2))
      else
        (\<lparr>dispatcherOptions = options, dispatcherConsumers = disruptorConsumers,
          dispatcherInspector = inspector\<rparr>, w))"

text \<open>
  \<open>BlockDispatcherBuilder\<close>: the builder is its vector \<open>m_consumers\<close>, empty when the
  builder is constructed; each member function returns the vector it leaves.
\<close>

definition BlockDispatcherBuilder_addHashConsumers ::
  "NodeConfiguration \<Rightarrow> BlockConsumer list \<Rightarrow> BlockConsumer list" where
  "BlockDispatcherBuilder_addHashConsumers nodeConfig m_consumers =
     m_consumers @
       [CreateBlockHashCalculatorConsumer,
        CreateBlockHashCheckConsumer
          (CreateHashCheckOptions (ShortLivedCacheBlockDuration nodeConfig) nodeConfig)]"

definition BlockDispatcherBuilder_addPrecomputedTransactionAddressConsumer ::
  "BlockConsumer list \<Rightarrow> BlockConsumer list" where
  "BlockDispatcherBuilder_addPrecomputedTransactionAddressConsumer m_consumers =
     m_consumers @ [CreateBlockAddressExtractionConsumer]"

definition BlockDispatcherBuilder_build ::
  "LocalNodeConfiguration \<Rightarrow> string \<Rightarrow> BlockConsumer list \<Rightarrow> BootWorld
   \<Rightarrow> ConsumerDispatcher \<times> BootWorld" where
  "BlockDispatcherBuilder_build config pValidatorPool m_consumers w =
     (let m_consumers1 = m_consumers @
            [CreateBlockChainCheckConsumer (MaxBlocksPerSyncAttempt (Node config))
               (MaxBlockFutureTime (BlockChain config)),
             CreateBlockStatelessValidationConsumer (CreateParallelValidationPolicy pValidatorPool)];
          disruptorConsumers = DisruptorConsumersFromBlockConsumers m_consumers1 @
            [CreateBlockChainSyncConsumer (MaxRollbackBlocks (BlockChain config)),
             CreateNewBlockConsumer Local]
      in CreateConsumerDispatcher config (CreateBlockConsumerDispatcherOptions (Node config))
           disruptorConsumers w)"

text \<open>\<open>TransactionDispatcherBuilder\<close>, in the same way.\<close>

definition TransactionDispatcherBuilder_addHashConsumers ::
  "NodeConfiguration \<Rightarrow> TransactionConsumer list \<Rightarrow> TransactionConsumer list" where
  "TransactionDispatcherBuilder_addHashConsumers nodeConfig m_consumers =
     m_consumers @
       [CreateTransactionHashCalculatorConsumer,
        CreateTransactionHashCheckConsumer
          (CreateHashCheckOptions (ShortLivedCacheTransactionDuration nodeConfig) nodeConfig)]"

definition TransactionDispatcherBuilder_addPrecomputedTransactionAddressConsumer ::
  "TransactionConsumer list \<Rightarrow> TransactionConsumer list" where
  "TransactionDispatcherBuilder_addPrecomputedTransactionAddressConsumer m_consumers =
     m_consumers @ [CreateTransactionAddressExtractionConsumer]"

definition TransactionDispatcherBuilder_build ::
  "LocalNodeConfiguration \<Rightarrow> string \<Rightarrow> TransactionConsumer list \<Rightarrow> BootWorld
   \<Rightarrow> ConsumerDispatcher \<times> BootWorld" where
  "TransactionDispatcherBuilder_build config pValidatorPool m_consumers w =
     (let m_consumers1 = m_consumers @
            [CreateTransactionStatelessValidationConsumer
               (CreateParallelValidationPolicy pValidatorPool)];
          disruptorConsumers = DisruptorConsumersFromTransactionConsumers m_consumers1 @
            [CreateNewTransactionsConsumer]
      in CreateConsumerDispatcher config (CreateTransactionConsumerDispatcherOptions (Node config))
           disruptorConsumers w)"

text \<open>
  The function that \<open>TransactionDispatcherBuilder::build\<close> hands to
  \<open>CreateNewTransactionsConsumer\<close>: it calls the new-transactions sink of the hooks on
  the transaction infos, then moves the infos into \<open>UtUpdater::update\<close>. The sink takes
  the infos by reference to const.
\<close>

datatype 'ti TransactionCall =
    Call_newTransactionsSink 'ti
  | Call_UtUpdater_update 'ti

definition NewTransactionsHandler :: "'ti \<Rightarrow> 'ti TransactionCall list \<Rightarrow> 'ti TransactionCall list" where
  "NewTransactionsHandler transactionInfos called =
     called @ [Call_newTransactionsSink transactionInfos, Call_UtUpdater_update transactionInfos]"

text \<open>
  \<open>CreateAndRegisterRollbackService\<close>. \<open>CalculateFullRollbackDuration\<close>
  (model/BlockChainConfiguration.h) is a parameter; \<open>millis()\<close> is an unsigned 64-bit
  number and \<open>/\<close> is the division of unsigned numbers.
\<close>

definition CreateAndRegisterRollbackService ::
  "(BlockChainConfiguration \<Rightarrow> TimeSpan) \<Rightarrow> BlockChainConfiguration \<Rightarrow> BootWorld
   \<Rightarrow> RollbackInfo \<times> BootWorld" where
  "CreateAndRegisterRollbackService CalculateFullRollbackDuration config w =
     (let rollbackDurationFull = CalculateFullRollbackDuration config;
          rollbackDurationHalf = FromMilliseconds (millis rollbackDurationFull div 2);
          pRollbackInfo = RollbackInfo_new rollbackDurationHalf
      in (pRollbackInfo, boot (Call_registerRootedService ''rollbacks'') w))"

definition CreateAndRegisterUtUpdater :: "BootWorld \<Rightarrow> BootWorld" where
  "CreateAndRegisterUtUpdater w =
     boot Call_addTransactionsChangeHandler
       (boot (Call_registerRootedService ''dispatcher.utUpdater'') w)"

definition RegisterBlockDispatcherService :: "BootWorld \<Rightarrow> BootWorld" where
  "RegisterBlockDispatcherService w =
     boot Call_setCompletionAwareBlockRangeConsumerFactory
       (boot Call_setBlockRangeConsumerFactory
         (boot (Call_registerService ''dispatcher.block'')
           (boot (Call_serviceGroup_registerService ''block dispatcher'') w)))"

definition RegisterTransactionDispatcherService :: "BootWorld \<Rightarrow> BootWorld" where
  "RegisterTransactionDispatcherService w =
     boot (Call_tasks_push_back ''transaction'')
       (boot Call_setTransactionRangeConsumerFactory
         (boot (Call_registerRootedService ''dispatcher.transaction.batch'')
           (boot (Call_registerService ''dispatcher.transaction'')
             (boot (Call_serviceGroup_registerService ''transaction dispatcher'') w))))"

record RegisteredServices =
  blockDispatcher :: ConsumerDispatcher
  transactionDispatcher :: ConsumerDispatcher
  rollbacks :: RollbackInfo

definition registerServices ::
  "(BlockChainConfiguration \<Rightarrow> TimeSpan) \<Rightarrow> LocalNodeConfiguration \<Rightarrow> BootWorld
   \<Rightarrow> RegisteredServices \<times> BootWorld" where
  "registerServices CalculateFullRollbackDuration config w =
     (let w1 = boot (Call_pushIsolatedPool ''validator'') w;
          pValidatorPool = ''validator'';
          w2 = CreateAndRegisterUtUpdater w1;
          w3 = boot (Call_pushServiceGroup ''dispatcher service'') w2;
          blockDispatcherBuilder = BlockDispatcherBuilder_addHashConsumers (Node config) [];
          transactionDispatcherBuilder =
            TransactionDispatcherBuilder_addHashConsumers (Node config) [];
          (blockDispatcherBuilder1, transactionDispatcherBuilder1, w4) =
            (if ShouldPrecomputeTransactionAddresses (Node config) then
               (BlockDispatcherBuilder_addPrecomputedTransactionAddressConsumer blockDispatcherBuilder,
                TransactionDispatcherBuilder_addPrecomputedTransactionAddressConsumer
                  transactionDispatcherBuilder,
                boot (Call_registerRootedService ''dispatcher.notificationPublisher'')
                  (boot Call_createNotificationPublisher w3))
             else (blockDispatcherBuilder, transactionDispatcherBuilder, w3));
          (pRollbackInfo, w5) =
            CreateAndRegisterRollbackService CalculateFullRollbackDuration (BlockChain config) w4;
          (pBlockDispatcher, w6) =
            BlockDispatcherBuilder_build config pValidatorPool blockDispatcherBuilder1 w5;
          w7 = RegisterBlockDispatcherService w6;
          (pTransactionDispatcher, w8) =
            TransactionDispatcherBuilder_build config pValidatorPool transactionDispatcherBuilder1 w7;
          w9 = RegisterTransactionDispatcherService w8
      in (\<lparr>blockDispatcher = pBlockDispatcher, transactionDispatcher = pTransactionDispatcher,
           rollbacks = pRollbackInfo\<rparr>, w9))"

definition is_rollbacks_registration :: "BootCall \<Rightarrow> bool" where
  "is_rollbacks_registration c = (c = Call_registerRootedService ''rollbacks'')"

section \<open>ServerMain.cpp\<close>

text \<open>
  \<open>GetResourcesPath(argc, argv)\<close> is
  \<open>boost::filesystem::path(argc > 1 ? argv[1] : "..") / "resources"\<close>.
  \<open>argv\<close> is the list of the strings the array holds; reading \<open>argv[1]\<close> in an array
  that holds fewer than two strings has no defined behaviour in C++, which the model
  writes out as \<open>None\<close>.
\<close>

definition GetResourcesPath :: "int \<Rightarrow> string list \<Rightarrow> path option" where
  "GetResourcesPath argc argv =
     (if 1 < argc
      then (if 1 < length argv then Some (path_append (argv ! 1) ''resources'') else None)
      else Some (path_append ''..'' ''resources''))"

text \<open>
  \<open>ServerMain\<close> and its helpers. What the functions outside the sources do is given by
  an environment: whether loading the configuration from a path, validating it, setting up
  logging, parsing the boot key and creating the local node return or throw, and whether
  \<open>try_lock\<close> gets the lock. The events are the calls and log lines in the order they
  happen. \<open>SetThreadName\<close>, \<open>WriteVersionInformation\<close>, the logger,
  \<open>WaitForTerminationSignal\<close> and the destruction of the node are taken to return.
\<close>

datatype 'a outcome = Throws | Returns 'a

datatype MainEvent =
    Ev_SetThreadName string
  | Ev_WriteVersionInformation
  | Ev_cout_loading_resources_from path
  | Ev_LoadFromPath path
  | Ev_ValidateConfiguration LocalNodeConfiguration
  | Ev_SetupLogging LoggingConfiguration
  | Ev_FileLock_try_lock path
  | Ev_log_fatal_could_not_acquire_instance_lock path
  | Ev_KeyPair_FromString string
  | Ev_log_info_booting_local_node
  | Ev_createLocalNode LocalNodeConfiguration
  | Ev_WaitForTerminationSignal
  | Ev_log_info_shutting_down_local_node
  | Ev_pLocalNode_reset
  | Ev_log_fatal_unhandled_exception_running_local_node
  | Ev_cerr_unhandled_exception_loading_configuration

record 'kp MainEnv =
  LoadFromPath :: "path \<Rightarrow> LocalNodeConfiguration outcome"
  ValidateConfiguration :: "LocalNodeConfiguration \<Rightarrow> unit outcome"
  SetupLogging :: "LoggingConfiguration \<Rightarrow> unit outcome"
  try_lock :: "path \<Rightarrow> bool"
  KeyPair_FromString :: "string \<Rightarrow> 'kp outcome"
  createLocalNode :: "LocalNodeConfiguration \<Rightarrow> 'kp \<Rightarrow> unit outcome"

definition LoadConfiguration ::
  "'kp MainEnv \<Rightarrow> int \<Rightarrow> string list \<Rightarrow> (LocalNodeConfiguration outcome \<times> MainEvent list) option" where
  "LoadConfiguration env argc argv =
     (case GetResourcesPath argc argv of
        None \<Rightarrow> None
      | Some resourcesPath \<Rightarrow>
          Some (LoadFromPath env resourcesPath,
                [Ev_cout_loading_resources_from resourcesPath, Ev_LoadFromPath resourcesPath]))"

definition Run :: "'kp MainEnv \<Rightarrow> LocalNodeConfiguration \<Rightarrow> unit outcome \<times> MainEvent list" where
  "Run env config =
     (case KeyPair_FromString env (BootKey (User config)) of
        Throws \<Rightarrow> (Throws, [Ev_KeyPair_FromString (BootKey (User config))])
      | Returns keyPair \<Rightarrow>
          (case createLocalNode env config keyPair of
             Throws \<Rightarrow>
               (Throws,
                [Ev_KeyPair_FromString (BootKey (User config)), Ev_log_info_booting_local_node,
                 Ev_createLocalNode config])
           | Returns _ \<Rightarrow>
               (Returns (),
                [Ev_KeyPair_FromString (BootKey (User config)), Ev_log_info_booting_local_node,
                 Ev_createLocalNode config, Ev_WaitForTerminationSignal,
                 Ev_log_info_shutting_down_local_node, Ev_pLocalNode_reset])))"

definition ServerMain :: "'kp MainEnv \<Rightarrow> int \<Rightarrow> string list \<Rightarrow> (int \<times> MainEvent list) option" where
  "ServerMain env argc argv =
     (let t0 = [Ev_SetThreadName ''Server Main'', Ev_WriteVersionInformation] in
      case LoadConfiguration env argc argv of
        None \<Rightarrow> None
      | Some (Throws, t1) \<Rightarrow>
          Some (- 1, t0 @ t1 @ [Ev_cerr_unhandled_exception_loading_configuration])
      | Some (Returns config, t1) \<Rightarrow>
          (case ValidateConfiguration env config of
             Throws \<Rightarrow>
               Some (- 1, t0 @ t1 @ [Ev_ValidateConfiguration config,
                                     Ev_cerr_unhandled_exception_loading_configuration])
           | Returns _ \<Rightarrow>
               (case SetupLogging env (Logging config) of
                  Throws \<Rightarrow>
                    Some (- 1, t0 @ t1 @ [Ev_ValidateConfiguration config,
                                          Ev_SetupLogging (Logging config),
                                          Ev_cerr_unhandled_exception_loading_configuration])
                | Returns _ \<Rightarrow>
                    (let lockFilePath = path_append (DataDirectory (User config)) ''file.lock'';
                         t2 = t0 @ t1 @ [Ev_ValidateConfiguration config,
                                         Ev_SetupLogging (Logging config),
                                         Ev_FileLock_try_lock lockFilePath]
                     in if \<not> try_lock env lockFilePath then
                          Some (- 3, t2 @ [Ev_log_fatal_could_not_acquire_instance_lock lockFilePath])
                        else
                          (case Run env config of
                             (Returns _, t3) \<Rightarrow> Some (0, t2 @ t3)
                           | (Throws, t3) \<Rightarrow>
                               Some (- 2, t2 @ t3 @
                                 [Ev_log_fatal_unhandled_exception_running_local_node]))))))"

text \<open>
  The events of setting up logging and of taking the instance lock, and the events of
  \<open>Run\<close>.
\<close>

fun is_logging_or_lock :: "MainEvent \<Rightarrow> bool" where
  "is_logging_or_lock (Ev_SetupLogging _) = True"
| "is_logging_or_lock (Ev_FileLock_try_lock _) = True"
| "is_logging_or_lock _ = False"

fun is_run_event :: "MainEvent \<Rightarrow> bool" where
  "is_run_event (Ev_KeyPair_FromString _) = True"
| "is_run_event Ev_log_info_booting_local_node = True"
| "is_run_event (Ev_createLocalNode _) = True"
| "is_run_event Ev_WaitForTerminationSignal = True"
| "is_run_event Ev_log_info_shutting_down_local_node = True"
| "is_run_event Ev_pLocalNode_reset = True"
| "is_run_event _ = False"

section \<open>BasicServerHooks\<close>

text \<open>
  extensions/BasicServerHooks.h is not part of the sources; BasicServerHooksTests
  exercises its functions. A hook is a function object that is set (\<open>Some f\<close>) or
  unset (\<open>None\<close>).
\<close>

datatype hook_error = catapult_invalid_argument

text \<open>
  Modelled from the spec: \<open>SetOnce(dest, source)\<close>, writing a hook once. It returns the
  exception it throws, if any, and the value \<open>dest\<close> has afterwards: \<open>source\<close> when
  \<open>dest\<close> was unset, and the value it had, with an invalid-argument error, when it was
  set.
\<close>

definition SetOnce :: "'f option \<Rightarrow> 'f option \<Rightarrow> hook_error option \<times> 'f option" where
  "SetOnce dest source =
     (case dest of
        Some _ \<Rightarrow> (Some catapult_invalid_argument, dest)
      | None \<Rightarrow> (None, source))"

text \<open>
  Modelled from the spec: \<open>Require(func)\<close>, reading a hook. It returns the function when
  it is set and throws an invalid-argument error when it is not.
\<close>

definition Require :: "'f option \<Rightarrow> hook_error + 'f" where
  "Require func = (case func of None \<Rightarrow> Inl catapult_invalid_argument | Some f \<Rightarrow> Inr f)"

section \<open>Sample inputs\<close>

text \<open>A sync state, a configuration, a boot state and an environment of the server main.\<close>

definition sample_world :: "(int, nat, nat, nat) SyncWorld" where
  "sample_world =
     \<lparr>localScore = 1000,
      rollbackInfo = increment (increment (RollbackInfo_new (FromMilliseconds 60000))),
      syncClock = \<lparr>readings = (\<lambda>k. 1541245327000 + of_nat k), reads = 0\<rparr>,
      calls = []\<rparr>"

definition sample_config :: LocalNodeConfiguration where
  "sample_config =
     \<lparr>BlockChain = \<lparr>MaxBlockFutureTime = FromMilliseconds 10000, MaxRollbackBlocks = 40\<rparr>,
      Node = \<lparr>BlockDisruptorSize = 4096, TransactionDisruptorSize = 16384,
              BlockElementTraceInterval = 1, TransactionElementTraceInterval = 10,
              ShouldAbortWhenDispatcherIsFull = True, ShouldAuditDispatcherInputs = True,
              ShouldPrecomputeTransactionAddresses = False,
              ShortLivedCacheBlockDuration = FromMilliseconds 100000,
              ShortLivedCacheTransactionDuration = FromMilliseconds 600000,
              MaxBlocksPerSyncAttempt = 400\<rparr>,
      Logging = \<lparr>Console = \<lparr>Level = 2, ComponentLevels = []\<rparr>,
                 File = \<lparr>Level = 2, ComponentLevels = []\<rparr>\<rparr>,
      User = \<lparr>BootKey = ''B4F1'', DataDirectory = ''../data''\<rparr>\<rparr>"

definition sample_boot :: BootWorld where
  "sample_boot = \<lparr>bootClock = \<lparr>readings = (\<lambda>k. 1541245327000 + of_nat k), reads = 0\<rparr>, bootCalls = []\<rparr>"

definition sample_env :: "unit MainEnv" where
  "sample_env =
     \<lparr>LoadFromPath = (\<lambda>p. if p = ''../resources'' then Returns sample_config else Throws),
      ValidateConfiguration = (\<lambda>c. Returns ()),
      SetupLogging = (\<lambda>l. Returns ()),
      try_lock = (\<lambda>p. p \<noteq> ''../data/file.lock''),
      KeyPair_FromString = (\<lambda>s. Returns ()),
      createLocalNode = (\<lambda>c k. Returns ())\<rparr>"

section \<open>Properties\<close>

lemma path_append_plain:
  "lhs \<noteq> [] \<Longrightarrow> last lhs \<noteq> CHR ''/'' \<Longrightarrow> rhs \<noteq> [] \<Longrightarrow> hd rhs \<noteq> CHR ''/''
   \<Longrightarrow> path_append lhs rhs = lhs @ ''/'' @ rhs"
  by (simp add: path_append_def is_separator_def)

lemma digit_char_not_separator: "d < 10 \<Longrightarrow> digit_char d \<noteq> CHR ''/''"
proof -
  assume "d < 10"
  then have "d \<in> {0, 1, 2, 3, 4, 5, 6, 7, 8, 9}" by auto
  then show ?thesis by (auto simp: digit_char_def)
qed

lemma to_string_nonempty: "to_string n \<noteq> []"
  by (subst to_string.simps) simp

lemma hd_to_string: "hd (to_string n) \<noteq> CHR ''/''"
proof (induction n rule: to_string.induct)
  case (1 n)
  show ?case
  proof (cases "n < 10")
    case True
    then show ?thesis by (subst to_string.simps) (simp add: digit_char_not_separator)
  next
    case False
    with 1 show ?thesis by (subst to_string.simps) (simp add: to_string_nonempty)
  qed
qed

subsection \<open>The sync handlers\<close>

text \<open>
  Claim C1. Every call of the \<open>StateChange\<close> handler with a change info of score delta
  \<open>D\<close> adds \<open>D\<close> to the local score, then calls \<open>notifyScoreChange\<close> once with the
  score it has just updated, then \<open>notifyStateChange\<close> once with the change info, then
  \<open>RollbackInfo::save\<close>, which folds the pending count into the committed counter and
  leaves no pending count. The score after the call minus the score before it is \<open>D\<close>.
\<close>

theorem StateChange_updates_score_then_notifies:
  fixes w :: "('s::ab_group_add, 'be, 'ob, 'os) SyncWorld"
  shows "localScore (StateChange changeInfo w) - localScore w = ScoreDelta changeInfo
    \<and> calls (StateChange changeInfo w) =
        calls w @ [Call_notifyScoreChange (localScore w + ScoreDelta changeInfo),
                   Call_notifyStateChange changeInfo, Call_RollbackInfo_save]
    \<and> rollbackInfo (StateChange changeInfo w) =
        save (readings (syncClock w) (reads (syncClock w))) (rollbackInfo w)
    \<and> pending (rollbackInfo (StateChange changeInfo w)) = 0
    \<and> counter (rollbackInfo (StateChange changeInfo w)) now Committed RollbackCounterType_All =
        counter (rollbackInfo w) now Committed RollbackCounterType_All + pending (rollbackInfo w)"
  by (simp add: StateChange_def rollbackInfo_save_def call_def timeSupplier_def save_def
      counter_def ring_of_def Let_def)

theorem StateChange_updates_score_then_notifies_witness:
  "localScore (StateChange \<lparr>ScoreDelta = 50\<rparr> sample_world) = 1050
   \<and> calls (StateChange \<lparr>ScoreDelta = 50\<rparr> sample_world) =
       [Call_notifyScoreChange 1050, Call_notifyStateChange \<lparr>ScoreDelta = 50\<rparr>,
        Call_RollbackInfo_save]
   \<and> pending (rollbackInfo (StateChange \<lparr>ScoreDelta = 50\<rparr> sample_world)) = 0
   \<and> counter (rollbackInfo (StateChange \<lparr>ScoreDelta = 50\<rparr> sample_world)) 0 Committed
        RollbackCounterType_All = 2"
  using StateChange_updates_score_then_notifies [of "\<lparr>ScoreDelta = 50\<rparr>" sample_world 0]
  by (simp add: sample_world_def increment_def RollbackInfo_new_def counter_def ring_of_def
      StateChange_def rollbackInfo_save_def call_def timeSupplier_def save_def Let_def)

text \<open>
  Claim C2. The \<open>DifficultyChecker\<close> handler returns true exactly when the number that
  \<open>chain::CheckDifficulties\<close> reports for the block-difficulty sub cache, the blocks and
  the chain configuration is the number of blocks. It calls \<open>RollbackInfo::reset\<close> once
  on every call; so when it returns false, the pending count of the rollback info has been
  reset.
\<close>

theorem DifficultyChecker_result_and_reset:
  "fst (DifficultyChecker CheckDifficulties sub cfg blocks cache w) =
     (CheckDifficulties (sub cache) blocks cfg = length blocks)
   \<and> calls (snd (DifficultyChecker CheckDifficulties sub cfg blocks cache w)) =
       calls w @ [Call_RollbackInfo_reset]
   \<and> rollbackInfo (snd (DifficultyChecker CheckDifficulties sub cfg blocks cache w)) =
       reset (rollbackInfo w)
   \<and> (\<not> fst (DifficultyChecker CheckDifficulties sub cfg blocks cache w) \<longrightarrow>
        pending (rollbackInfo (snd (DifficultyChecker CheckDifficulties sub cfg blocks cache w))) = 0)"
  by (auto simp: DifficultyChecker_def rollbackInfo_reset_def call_def reset_def Let_def)

theorem DifficultyChecker_result_and_reset_witness:
  "\<not> fst (DifficultyChecker (\<lambda>dc bs cfg. 1) id (BlockChain sample_config) [7, 8 :: nat] (0 :: nat) sample_world)
   \<and> pending (rollbackInfo sample_world) = 2
   \<and> pending (rollbackInfo (snd (DifficultyChecker (\<lambda>dc bs cfg. 1) id (BlockChain sample_config)
        [7, 8 :: nat] (0 :: nat) sample_world))) = 0
   \<and> calls (snd (DifficultyChecker (\<lambda>dc bs cfg. 1) id (BlockChain sample_config)
        [7, 8 :: nat] (0 :: nat) sample_world)) = [Call_RollbackInfo_reset]"
  using DifficultyChecker_result_and_reset [of "\<lambda>dc bs cfg. 1" id "BlockChain sample_config"
      "[7, 8 :: nat]" "0 :: nat" sample_world]
  by (simp add: sample_world_def increment_def RollbackInfo_new_def reset_def)

text \<open>
  Claim C3. Every call of the \<open>UndoBlock\<close> handler increments the pending counter of the
  rollback info exactly once, and does so before the undo observer is run over the block
  element by \<open>chain::RollbackBlock\<close>.
\<close>

theorem UndoBlock_increments_before_undo:
  "calls (UndoBlock pUndoObserver blockElement observerState w) =
     calls w @ [Call_RollbackInfo_increment, Call_log_rolling_back blockElement,
                Call_RollbackBlock blockElement pUndoObserver observerState]
   \<and> rollbackInfo (UndoBlock pUndoObserver blockElement observerState w) = increment (rollbackInfo w)
   \<and> pending (rollbackInfo (UndoBlock pUndoObserver blockElement observerState w)) =
       pending (rollbackInfo w) + 1"
  by (simp add: UndoBlock_def CreateSyncUndoBlockHandler_def rollbackInfo_increment_def call_def
      increment_def)

theorem UndoBlock_increments_before_undo_witness:
  "calls (UndoBlock 1 100 2 sample_world) =
     [Call_RollbackInfo_increment, Call_log_rolling_back 100, Call_RollbackBlock 100 1 2]
   \<and> pending (rollbackInfo (UndoBlock 1 100 2 sample_world)) = 3"
  using UndoBlock_increments_before_undo [of 1 100 2 sample_world]
  by (simp add: sample_world_def increment_def RollbackInfo_new_def)

subsection \<open>The pipeline assembly\<close>

lemma bootClock_boot: "bootClock (boot c w) = bootClock w"
  by (simp add: boot_def)

lemma bootCalls_boot: "bootCalls (boot c w) = bootCalls w @ [c]"
  by (simp add: boot_def)

lemma CreateConsumerDispatcher_consumers:
  "dispatcherConsumers (fst (CreateConsumerDispatcher config options cs w)) =
     (if ShouldAuditDispatcherInputs (Node config)
      then [CreateAuditConsumer
              (path_append
                 (path_append (path_append (DataDirectory (User config)) ''audit'')
                    (DispatcherName options))
                 (to_string (unat (readings (bootClock w) (reads (bootClock w))))))]
      else []) @ cs"
  by (simp add: CreateConsumerDispatcher_def Let_def split_def timeSupplier_def)

lemma bootCalls_CreateConsumerDispatcher:
  "bootCalls (snd (CreateConsumerDispatcher config options cs w)) =
     bootCalls w @
     (if ShouldAuditDispatcherInputs (Node config)
      then [Call_log_enabling_auditing
              (path_append
                 (path_append (path_append (DataDirectory (User config)) ''audit'')
                    (DispatcherName options))
                 (to_string (unat (readings (bootClock w) (reads (bootClock w)))))),
            Call_create_directories
              (path_append
                 (path_append (path_append (DataDirectory (User config)) ''audit'')
                    (DispatcherName options))
                 (to_string (unat (readings (bootClock w) (reads (bootClock w))))))]
      else [])"
  by (simp add: CreateConsumerDispatcher_def Let_def split_def timeSupplier_def bootCalls_boot)

lemma BlockDispatcherBuilder_build_consumers:
  "dispatcherConsumers (fst (BlockDispatcherBuilder_build config pool m w)) =
     (if ShouldAuditDispatcherInputs (Node config)
      then [CreateAuditConsumer
              (path_append
                 (path_append (path_append (DataDirectory (User config)) ''audit'')
                    ''block dispatcher'')
                 (to_string (unat (readings (bootClock w) (reads (bootClock w))))))]
      else []) @
     map FromBlockConsumer m @
     [FromBlockConsumer (CreateBlockChainCheckConsumer (MaxBlocksPerSyncAttempt (Node config))
        (MaxBlockFutureTime (BlockChain config))),
      FromBlockConsumer (CreateBlockStatelessValidationConsumer
        (CreateParallelValidationPolicy pool)),
      CreateBlockChainSyncConsumer (MaxRollbackBlocks (BlockChain config)),
      CreateNewBlockConsumer Local]"
  unfolding BlockDispatcherBuilder_build_def Let_def CreateConsumerDispatcher_consumers
  by (simp add: DisruptorConsumersFromBlockConsumers_def CreateBlockConsumerDispatcherOptions_def)

lemma registerServices_blockDispatcher:
  "blockDispatcher (fst (registerServices CalculateFullRollbackDuration config w)) =
     fst (BlockDispatcherBuilder_build config ''validator''
       (if ShouldPrecomputeTransactionAddresses (Node config)
        then BlockDispatcherBuilder_addPrecomputedTransactionAddressConsumer
               (BlockDispatcherBuilder_addHashConsumers (Node config) [])
        else BlockDispatcherBuilder_addHashConsumers (Node config) [])
       (snd (CreateAndRegisterRollbackService CalculateFullRollbackDuration (BlockChain config)
         (if ShouldPrecomputeTransactionAddresses (Node config)
          then boot (Call_registerRootedService ''dispatcher.notificationPublisher'')
                 (boot Call_createNotificationPublisher
                   (boot (Call_pushServiceGroup ''dispatcher service'')
                     (CreateAndRegisterUtUpdater (boot (Call_pushIsolatedPool ''validator'') w))))
          else boot (Call_pushServiceGroup ''dispatcher service'')
                 (CreateAndRegisterUtUpdater (boot (Call_pushIsolatedPool ''validator'') w))))))"
  by (simp add: registerServices_def Let_def split_def)

lemma bootClock_CreateAndRegisterRollbackService:
  "bootClock (snd (CreateAndRegisterRollbackService f c w)) = bootClock w"
  by (simp add: CreateAndRegisterRollbackService_def Let_def bootClock_boot)

lemma bootClock_CreateAndRegisterUtUpdater:
  "bootClock (CreateAndRegisterUtUpdater w) = bootClock w"
  by (simp add: CreateAndRegisterUtUpdater_def bootClock_boot)

text \<open>
  Claim C5. The consumers of the block dispatcher that \<open>registerServices\<close> assembles
  are, in this order: the block hash calculator, the block hash check (with
  \<open>ShortLivedCacheBlockDuration\<close>), the block address extraction when and only when
  \<open>ShouldPrecomputeTransactionAddresses\<close> is set, the block chain check (with
  \<open>MaxBlocksPerSyncAttempt\<close> and \<open>MaxBlockFutureTime\<close>), the stateless validation
  with the parallel policy, the block chain sync (with \<open>MaxRollbackBlocks\<close>) and the
  new block consumer; the audit consumer stands before them all when and only when
  \<open>ShouldAuditDispatcherInputs\<close> is set.
\<close>

theorem block_dispatcher_consumer_chain:
  "dispatcherConsumers (blockDispatcher (fst (registerServices CalculateFullRollbackDuration config w))) =
     (if ShouldAuditDispatcherInputs (Node config)
      then [CreateAuditConsumer
              (path_append
                 (path_append (path_append (DataDirectory (User config)) ''audit'') ''block dispatcher'')
                 (to_string (unat (readings (bootClock w) (reads (bootClock w))))))]
      else []) @
     [FromBlockConsumer CreateBlockHashCalculatorConsumer,
      FromBlockConsumer (CreateBlockHashCheckConsumer
        (CreateHashCheckOptions (ShortLivedCacheBlockDuration (Node config)) (Node config)))] @
     (if ShouldPrecomputeTransactionAddresses (Node config)
      then [FromBlockConsumer CreateBlockAddressExtractionConsumer] else []) @
     [FromBlockConsumer (CreateBlockChainCheckConsumer (MaxBlocksPerSyncAttempt (Node config))
        (MaxBlockFutureTime (BlockChain config))),
      FromBlockConsumer (CreateBlockStatelessValidationConsumer
        (CreateParallelValidationPolicy ''validator'')),
      CreateBlockChainSyncConsumer (MaxRollbackBlocks (BlockChain config)),
      CreateNewBlockConsumer Local]"
  unfolding registerServices_blockDispatcher BlockDispatcherBuilder_build_consumers
  by (simp add: bootClock_CreateAndRegisterRollbackService bootClock_CreateAndRegisterUtUpdater
      bootClock_boot BlockDispatcherBuilder_addHashConsumers_def
      BlockDispatcherBuilder_addPrecomputedTransactionAddressConsumer_def)

theorem block_dispatcher_consumer_chain_witness:
  "dispatcherConsumers (blockDispatcher
     (fst (registerServices (\<lambda>c. FromMilliseconds 600001) sample_config sample_boot))) =
     [CreateAuditConsumer ''../data/audit/block dispatcher/1541245327000'',
      FromBlockConsumer CreateBlockHashCalculatorConsumer,
      FromBlockConsumer (CreateBlockHashCheckConsumer
        (CreateHashCheckOptions (FromMilliseconds 100000) (Node sample_config))),
      FromBlockConsumer (CreateBlockChainCheckConsumer 400 (FromMilliseconds 10000)),
      FromBlockConsumer (CreateBlockStatelessValidationConsumer
        (CreateParallelValidationPolicy ''validator'')),
      CreateBlockChainSyncConsumer 40,
      CreateNewBlockConsumer Local]"
  using block_dispatcher_consumer_chain [of "\<lambda>c. FromMilliseconds 600001" sample_config sample_boot]
  by (simp add: sample_config_def sample_boot_def path_append_def is_separator_def
      to_string.simps digit_char_def)

lemma TransactionDispatcherBuilder_build_consumers:
  "dispatcherConsumers (fst (TransactionDispatcherBuilder_build config pool m w)) =
     (if ShouldAuditDispatcherInputs (Node config)
      then [CreateAuditConsumer
              (path_append
                 (path_append (path_append (DataDirectory (User config)) ''audit'')
                    ''transaction dispatcher'')
                 (to_string (unat (readings (bootClock w) (reads (bootClock w))))))]
      else []) @
     map FromTransactionConsumer m @
     [FromTransactionConsumer (CreateTransactionStatelessValidationConsumer
        (CreateParallelValidationPolicy pool)),
      CreateNewTransactionsConsumer]"
  unfolding TransactionDispatcherBuilder_build_def Let_def CreateConsumerDispatcher_consumers
  by (simp add: DisruptorConsumersFromTransactionConsumers_def
      CreateTransactionConsumerDispatcherOptions_def)

text \<open>
  Claim C4. The function given to the new-transactions consumer that
  \<open>TransactionDispatcherBuilder::build\<close> puts last in the chain calls the
  new-transactions sink once with the transaction infos it receives, and then
  \<open>UtUpdater::update\<close> with the same infos: the sink is called before the pool is
  updated.
\<close>

theorem NewTransactions_sink_then_update:
  "NewTransactionsHandler transactionInfos called =
     called @ [Call_newTransactionsSink transactionInfos, Call_UtUpdater_update transactionInfos]
   \<and> filter (\<lambda>c. c = Call_newTransactionsSink transactionInfos)
        (drop (length called) (NewTransactionsHandler transactionInfos called)) =
       [Call_newTransactionsSink transactionInfos]
   \<and> last (NewTransactionsHandler transactionInfos called) = Call_UtUpdater_update transactionInfos
   \<and> last (dispatcherConsumers (fst (TransactionDispatcherBuilder_build config pool m w))) =
       CreateNewTransactionsConsumer"
  by (simp add: NewTransactionsHandler_def TransactionDispatcherBuilder_build_consumers)

theorem NewTransactions_sink_then_update_witness:
  "NewTransactionsHandler [''tx1'', ''tx2''] [] =
     [Call_newTransactionsSink [''tx1'', ''tx2''], Call_UtUpdater_update [''tx1'', ''tx2'']]"
  using NewTransactions_sink_then_update [of "[''tx1'', ''tx2'']" "[]"]
  by simp

text \<open>
  Claim C6. When \<open>ShouldAuditDispatcherInputs\<close> is set, \<open>CreateConsumerDispatcher\<close>
  reads the time supplier once, puts an audit consumer before all the consumers it is
  given, and creates the directory of that consumer: the data directory joined with
  \<open>audit\<close>, the dispatcher name and the decimal value of the time read, which is
  \<open><DataDirectory>/audit/<dispatcherName>/<time>\<close> for a data directory and a name
  that are not empty and neither start nor end with a separator. When the flag is not
  set, the consumers are the ones given, no directory is created and the time supplier is
  not read.
\<close>

theorem CreateConsumerDispatcher_audit:
  "(ShouldAuditDispatcherInputs (Node config) \<longrightarrow>
      (let auditPath =
             path_append
               (path_append (path_append (DataDirectory (User config)) ''audit'')
                  (DispatcherName options))
               (to_string (unat (readings (bootClock w) (reads (bootClock w)))))
       in dispatcherConsumers (fst (CreateConsumerDispatcher config options cs w)) =
            CreateAuditConsumer auditPath # cs
          \<and> bootCalls (snd (CreateConsumerDispatcher config options cs w)) =
            bootCalls w @ [Call_log_enabling_auditing auditPath, Call_create_directories auditPath]
          \<and> reads (bootClock (snd (CreateConsumerDispatcher config options cs w))) =
            Suc (reads (bootClock w))
          \<and> (DataDirectory (User config) \<noteq> [] \<and> last (DataDirectory (User config)) \<noteq> CHR ''/''
             \<and> DispatcherName options \<noteq> [] \<and> hd (DispatcherName options) \<noteq> CHR ''/''
             \<and> last (DispatcherName options) \<noteq> CHR ''/'' \<longrightarrow>
             auditPath =
               DataDirectory (User config) @ ''/audit/'' @ DispatcherName options @ ''/'' @
               to_string (unat (readings (bootClock w) (reads (bootClock w)))))))
   \<and> (\<not> ShouldAuditDispatcherInputs (Node config) \<longrightarrow>
        dispatcherConsumers (fst (CreateConsumerDispatcher config options cs w)) = cs
        \<and> snd (CreateConsumerDispatcher config options cs w) = w)"
proof -
  have plain: "path_append
         (path_append (path_append d ''audit'') n) (to_string t) =
       d @ ''/audit/'' @ n @ ''/'' @ to_string t"
    if "d \<noteq> []" "last d \<noteq> CHR ''/''" "n \<noteq> []" "hd n \<noteq> CHR ''/''" "last n \<noteq> CHR ''/''"
    for d n t
  proof -
    have 1: "path_append d ''audit'' = d @ ''/audit''"
      using that by (simp add: path_append_plain)
    have 2: "path_append (d @ ''/audit'') n = d @ ''/audit/'' @ n"
      using that by (simp add: path_append_plain)
    have 3: "path_append (d @ ''/audit/'' @ n) (to_string t) = (d @ ''/audit/'' @ n) @ ''/'' @ to_string t"
      using that by (intro path_append_plain) (simp_all add: to_string_nonempty hd_to_string)
    show ?thesis unfolding 1 2 using 3 by simp
  qed
  show ?thesis
    by (auto simp: Let_def CreateConsumerDispatcher_consumers bootCalls_CreateConsumerDispatcher plain)
      (simp_all add: CreateConsumerDispatcher_def Let_def split_def timeSupplier_def bootClock_boot)
qed

theorem CreateConsumerDispatcher_audit_witness:
  "ShouldAuditDispatcherInputs (Node sample_config)
   \<and> dispatcherConsumers (fst (CreateConsumerDispatcher sample_config
        (CreateBlockConsumerDispatcherOptions (Node sample_config)) [CreateNewBlockConsumer Local]
        sample_boot)) =
       [CreateAuditConsumer ''../data/audit/block dispatcher/1541245327000'',
        CreateNewBlockConsumer Local]
   \<and> bootCalls (snd (CreateConsumerDispatcher sample_config
        (CreateBlockConsumerDispatcherOptions (Node sample_config)) [CreateNewBlockConsumer Local]
        sample_boot)) =
       [Call_log_enabling_auditing ''../data/audit/block dispatcher/1541245327000'',
        Call_create_directories ''../data/audit/block dispatcher/1541245327000'']
   \<and> \<not> ShouldAuditDispatcherInputs
        (Node (sample_config\<lparr>Node := (Node sample_config)\<lparr>ShouldAuditDispatcherInputs := False\<rparr>\<rparr>))
   \<and> CreateConsumerDispatcher
        (sample_config\<lparr>Node := (Node sample_config)\<lparr>ShouldAuditDispatcherInputs := False\<rparr>\<rparr>)
        (CreateBlockConsumerDispatcherOptions (Node sample_config)) [CreateNewBlockConsumer Local]
        sample_boot =
       (\<lparr>dispatcherOptions = CreateBlockConsumerDispatcherOptions (Node sample_config),
         dispatcherConsumers = [CreateNewBlockConsumer Local],
         dispatcherInspector = [statusSubscriber_flush, reclaimMemoryInspector]\<rparr>, sample_boot)"
  using CreateConsumerDispatcher_audit [of sample_config
      "CreateBlockConsumerDispatcherOptions (Node sample_config)" sample_boot
      "[CreateNewBlockConsumer Local]"]
    CreateConsumerDispatcher_audit [of
      "sample_config\<lparr>Node := (Node sample_config)\<lparr>ShouldAuditDispatcherInputs := False\<rparr>\<rparr>"
      "CreateBlockConsumerDispatcherOptions (Node sample_config)" sample_boot
      "[CreateNewBlockConsumer Local]"]
  by (simp add: sample_config_def sample_boot_def CreateBlockConsumerDispatcherOptions_def
      CreateConsumerDispatcher_def Let_def
      path_append_def is_separator_def to_string.simps digit_char_def)

lemma recentStatsTimeSpan_apply_op: "recentStatsTimeSpan (apply_op op r) = recentStatsTimeSpan r"
  by (cases op) (simp_all add: increment_def save_def reset_def)

lemma recentStatsTimeSpan_fold: "recentStatsTimeSpan (fold apply_op ops r) = recentStatsTimeSpan r"
  by (induction ops arbitrary: r) (simp_all add: recentStatsTimeSpan_apply_op)

lemma registerServices_rollbacks:
  "rollbacks (fst (registerServices F config w)) =
     RollbackInfo_new (FromMilliseconds (millis (F (BlockChain config)) div 2))"
  by (simp add: registerServices_def Let_def split_def CreateAndRegisterRollbackService_def)

lemma registerServices_registers_rollbacks_once:
  "length (filter is_rollbacks_registration (bootCalls (snd (registerServices F config w)))) =
     Suc (length (filter is_rollbacks_registration (bootCalls w)))"
  by (simp add: registerServices_def Let_def split_def CreateAndRegisterRollbackService_def
      BlockDispatcherBuilder_build_def TransactionDispatcherBuilder_build_def
      bootCalls_CreateConsumerDispatcher bootCalls_boot RegisterBlockDispatcherService_def
      RegisterTransactionDispatcherService_def CreateAndRegisterUtUpdater_def
      is_rollbacks_registration_def)

text \<open>
  Claim C7. \<open>CreateAndRegisterRollbackService\<close> constructs the rollback info with a
  recent-events window of the full rollback duration, in milliseconds, divided by two and
  rounded down. \<open>registerServices\<close> registers this rollback info, once. Whatever
  increments, saves and resets happen to it later, a query of a \<open>Recent\<close> counter sums
  only the records that are not older than this half of the full rollback duration.
\<close>

theorem rollback_window_is_half_duration:
  "recentStatsTimeSpan (fst (CreateAndRegisterRollbackService F cfg w)) =
     FromMilliseconds (millis (F cfg) div 2)
   \<and> unat (millis (recentStatsTimeSpan (fst (CreateAndRegisterRollbackService F cfg w)))) =
       unat (millis (F cfg)) div 2
   \<and> rollbacks (fst (registerServices F config w0)) =
       fst (CreateAndRegisterRollbackService F (BlockChain config) w)
   \<and> length (filter is_rollbacks_registration (bootCalls (snd (registerServices F config w0)))) =
       Suc (length (filter is_rollbacks_registration (bootCalls w0)))
   \<and> counter (fold apply_op ops (rollbacks (fst (registerServices F config w0)))) now res
       RollbackCounterType_Recent =
       sum_list (map snd (filter
         (\<lambda>e. unat now \<le> unat (fst e) + unat (millis (F (BlockChain config))) div 2)
         (ring_of (fold apply_op ops (rollbacks (fst (registerServices F config w0)))) res)))"
proof -
  have half: "unat (millis (F c) div 2) = unat (millis (F c)) div 2" for c
    by (simp add: unat_div)
  show ?thesis
    by (simp add: CreateAndRegisterRollbackService_def Let_def RollbackInfo_new_def half
        registerServices_rollbacks registerServices_registers_rollbacks_once
        counter_def recentStatsTimeSpan_fold within_window_def)
qed

theorem rollback_window_is_half_duration_witness:
  "recentStatsTimeSpan (rollbacks (fst (registerServices (\<lambda>c. FromMilliseconds 600001)
      sample_config sample_boot))) = FromMilliseconds 300000
   \<and> counter (fold apply_op [Op_increment, Op_save 1000, Op_increment, Op_save 400000]
        (rollbacks (fst (registerServices (\<lambda>c. FromMilliseconds 600001) sample_config sample_boot))))
        500000 Committed RollbackCounterType_Recent = 1
   \<and> counter (fold apply_op [Op_increment, Op_save 1000, Op_increment, Op_save 400000]
        (rollbacks (fst (registerServices (\<lambda>c. FromMilliseconds 600001) sample_config sample_boot))))
        500000 Committed RollbackCounterType_All = 2"
  using rollback_window_is_half_duration [of "\<lambda>c. FromMilliseconds 600001"
      "BlockChain sample_config" sample_boot sample_config sample_boot
      "[Op_increment, Op_save 1000, Op_increment, Op_save 400000]" 500000 Committed]
  by (simp add: registerServices_rollbacks CreateAndRegisterRollbackService_def Let_def
      RollbackInfo_new_def increment_def save_def counter_def ring_of_def within_window_def)

subsection \<open>The server main\<close>

text \<open>
  Claim C8. \<open>ServerMain\<close> returns -1 when loading or validating the configuration
  throws, and then neither logging is set up nor the lock is tried; with the
  configuration loaded and validated and logging set up, it returns -3 when the lock on
  \<open><DataDirectory>/file.lock\<close> is not acquired, and then nothing of \<open>Run\<close> happens,
  -2 when the lock is held and \<open>Run\<close> throws, and 0 when the lock is held and
  \<open>Run\<close> returns. In every run, setting up logging and trying the lock come only
  after the configuration has been loaded and validated.
\<close>

theorem ServerMain_exit_codes:
  assumes "GetResourcesPath argc argv = Some resourcesPath"
  shows
   "(LoadFromPath env resourcesPath = Throws
       \<or> (\<exists>config. LoadFromPath env resourcesPath = Returns config
             \<and> ValidateConfiguration env config = Throws)
     \<longrightarrow> (\<exists>trace. ServerMain env argc argv = Some (- 1, trace)
              \<and> filter is_logging_or_lock trace = []))
    \<and> (\<forall>config. LoadFromPath env resourcesPath = Returns config
          \<and> ValidateConfiguration env config = Returns ()
          \<and> SetupLogging env (Logging config) = Returns () \<longrightarrow>
          (\<not> try_lock env (path_append (DataDirectory (User config)) ''file.lock'') \<longrightarrow>
             (\<exists>trace. ServerMain env argc argv = Some (- 3, trace)
                \<and> filter is_run_event trace = []))
          \<and> (try_lock env (path_append (DataDirectory (User config)) ''file.lock'')
               \<and> fst (Run env config) = Throws \<longrightarrow>
               (\<exists>trace. ServerMain env argc argv = Some (- 2, trace)))
          \<and> (try_lock env (path_append (DataDirectory (User config)) ''file.lock'')
               \<and> fst (Run env config) = Returns () \<longrightarrow>
               (\<exists>trace. ServerMain env argc argv = Some (0, trace))))
    \<and> (\<forall>code trace. ServerMain env argc argv = Some (code, trace)
          \<and> filter is_logging_or_lock trace \<noteq> [] \<longrightarrow>
          (\<exists>config rest. LoadFromPath env resourcesPath = Returns config
             \<and> ValidateConfiguration env config = Returns ()
             \<and> trace = [Ev_SetThreadName ''Server Main'', Ev_WriteVersionInformation,
                        Ev_cout_loading_resources_from resourcesPath,
                        Ev_LoadFromPath resourcesPath, Ev_ValidateConfiguration config] @ rest))"
proof (intro conjI)
  show "LoadFromPath env resourcesPath = Throws
       \<or> (\<exists>config. LoadFromPath env resourcesPath = Returns config
             \<and> ValidateConfiguration env config = Throws)
     \<longrightarrow> (\<exists>trace. ServerMain env argc argv = Some (- 1, trace)
              \<and> filter is_logging_or_lock trace = [])"
    using assms by (auto simp: ServerMain_def LoadConfiguration_def)
next
  show "\<forall>config. LoadFromPath env resourcesPath = Returns config
          \<and> ValidateConfiguration env config = Returns ()
          \<and> SetupLogging env (Logging config) = Returns () \<longrightarrow>
          (\<not> try_lock env (path_append (DataDirectory (User config)) ''file.lock'') \<longrightarrow>
             (\<exists>trace. ServerMain env argc argv = Some (- 3, trace)
                \<and> filter is_run_event trace = []))
          \<and> (try_lock env (path_append (DataDirectory (User config)) ''file.lock'')
               \<and> fst (Run env config) = Throws \<longrightarrow>
               (\<exists>trace. ServerMain env argc argv = Some (- 2, trace)))
          \<and> (try_lock env (path_append (DataDirectory (User config)) ''file.lock'')
               \<and> fst (Run env config) = Returns () \<longrightarrow>
               (\<exists>trace. ServerMain env argc argv = Some (0, trace)))"
  proof (intro allI impI conjI; elim conjE)
    fix config
    assume *: "LoadFromPath env resourcesPath = Returns config"
      "ValidateConfiguration env config = Returns ()"
      "SetupLogging env (Logging config) = Returns ()"
    {
      assume "\<not> try_lock env (path_append (DataDirectory (User config)) ''file.lock'')"
      with * assms show "\<exists>trace. ServerMain env argc argv = Some (- 3, trace)
                \<and> filter is_run_event trace = []"
        by (simp add: ServerMain_def LoadConfiguration_def Let_def)
    }
    {
      assume "try_lock env (path_append (DataDirectory (User config)) ''file.lock'')"
        "fst (Run env config) = Throws"
      with * assms show "\<exists>trace. ServerMain env argc argv = Some (- 2, trace)"
        by (cases "Run env config") (simp add: ServerMain_def LoadConfiguration_def Let_def)
    }
    {
      assume "try_lock env (path_append (DataDirectory (User config)) ''file.lock'')"
        "fst (Run env config) = Returns ()"
      with * assms show "\<exists>trace. ServerMain env argc argv = Some (0, trace)"
        by (cases "Run env config") (simp add: ServerMain_def LoadConfiguration_def Let_def)
    }
  qed
next
  show "\<forall>code trace. ServerMain env argc argv = Some (code, trace)
          \<and> filter is_logging_or_lock trace \<noteq> [] \<longrightarrow>
          (\<exists>config rest. LoadFromPath env resourcesPath = Returns config
             \<and> ValidateConfiguration env config = Returns ()
             \<and> trace = [Ev_SetThreadName ''Server Main'', Ev_WriteVersionInformation,
                        Ev_cout_loading_resources_from resourcesPath,
                        Ev_LoadFromPath resourcesPath, Ev_ValidateConfiguration config] @ rest)"
    using assms
    by (auto simp: ServerMain_def LoadConfiguration_def Let_def
        split: outcome.splits prod.splits if_splits)
qed

theorem ServerMain_exit_codes_witness:
  "GetResourcesPath 1 [''catapult.server''] = Some ''../resources''
   \<and> LoadFromPath sample_env ''../resources'' = Returns sample_config
   \<and> \<not> try_lock sample_env (path_append (DataDirectory (User sample_config)) ''file.lock'')
   \<and> ServerMain sample_env 1 [''catapult.server''] =
       Some (- 3, [Ev_SetThreadName ''Server Main'', Ev_WriteVersionInformation,
                   Ev_cout_loading_resources_from ''../resources'',
                   Ev_LoadFromPath ''../resources'', Ev_ValidateConfiguration sample_config,
                   Ev_SetupLogging (Logging sample_config),
                   Ev_FileLock_try_lock ''../data/file.lock'',
                   Ev_log_fatal_could_not_acquire_instance_lock ''../data/file.lock''])
   \<and> map_option fst (ServerMain (sample_env\<lparr>try_lock := (\<lambda>p. True)\<rparr>) 1 [''catapult.server'']) = Some 0
   \<and> map_option fst (ServerMain (sample_env\<lparr>try_lock := (\<lambda>p. True),
        createLocalNode := (\<lambda>c k. Throws)\<rparr>) 1 [''catapult.server'']) = Some (- 2)
   \<and> map_option fst (ServerMain (sample_env\<lparr>ValidateConfiguration := (\<lambda>c. Throws)\<rparr>) 1
        [''catapult.server'']) = Some (- 1)"
  using ServerMain_exit_codes [of 1 "[''catapult.server'']" "''../resources''" sample_env]
  by (simp add: sample_env_def ServerMain_def LoadConfiguration_def GetResourcesPath_def Run_def
      Let_def path_append_def is_separator_def)
    (simp add: sample_config_def)

text \<open>
  Claim C10. For every \<open>argc\<close> and every \<open>argv\<close> that holds a second string when
  \<open>argc > 1\<close> (the arguments of \<open>main\<close> do: \<open>argv\<close> holds \<open>argc\<close> strings),
  \<open>GetResourcesPath\<close> returns a path: \<open>argv[1]\<close> joined with \<open>resources\<close> when
  \<open>argc > 1\<close>, and \<open>..\<close> joined with \<open>resources\<close>, which is \<open>../resources\<close>, when
  \<open>argc \<le> 1\<close>; a node started with no argument loads its configuration from
  \<open>../resources\<close>.
\<close>

theorem GetResourcesPath_total:
  assumes "1 < argc \<longrightarrow> 1 < length argv"
  shows "GetResourcesPath argc argv =
           Some (path_append (if 1 < argc then argv ! 1 else ''..'') ''resources'')
         \<and> (argc \<le> 1 \<longrightarrow>
              GetResourcesPath argc argv = Some ''../resources''
              \<and> LoadConfiguration env argc argv =
                  Some (LoadFromPath env ''../resources'',
                        [Ev_cout_loading_resources_from ''../resources'',
                         Ev_LoadFromPath ''../resources'']))"
  using assms
  by (auto simp: GetResourcesPath_def LoadConfiguration_def path_append_def is_separator_def)

theorem GetResourcesPath_total_witness:
  "1 < length [''catapult.server'', ''/opt/node'']
   \<and> GetResourcesPath 2 [''catapult.server'', ''/opt/node''] = Some ''/opt/node/resources''
   \<and> GetResourcesPath 1 [''catapult.server''] = Some ''../resources''
   \<and> map_option snd (LoadConfiguration sample_env 1 [''catapult.server'']) =
       Some [Ev_cout_loading_resources_from ''../resources'', Ev_LoadFromPath ''../resources'']"
  using GetResourcesPath_total [of 2 "[''catapult.server'', ''/opt/node'']" sample_env]
    GetResourcesPath_total [of 1 "[''catapult.server'']" sample_env]
  by (simp add: path_append_def is_separator_def)

subsection \<open>The hooks\<close>

lemma SetOnce_keeps_set_dest:
  "fold (\<lambda>source dest. snd (SetOnce dest source)) sources (Some f) = Some f"
  by (induction sources) (simp_all add: SetOnce_def)

text \<open>
  Claim C9. \<open>SetOnce(dest, source)\<close> assigns \<open>source\<close> to \<open>dest\<close> when \<open>dest\<close> is
  unset; when \<open>dest\<close> is set it throws an invalid-argument error and \<open>dest\<close> keeps its
  value, so no later \<open>SetOnce\<close> changes a hook that is set. \<open>Require(func)\<close>
  returns \<open>func\<close> when it is set and throws an invalid-argument error when it is not.
\<close>

theorem SetOnce_Require_write_once:
  "SetOnce None source = (None, source)
   \<and> SetOnce (Some f) source = (Some catapult_invalid_argument, Some f)
   \<and> fold (\<lambda>source dest. snd (SetOnce dest source)) sources (Some f) = Some f
   \<and> Require (Some f) = Inr f
   \<and> Require None = Inl catapult_invalid_argument"
  using SetOnce_keeps_set_dest [of sources f] by (simp add: SetOnce_def Require_def)

theorem SetOnce_Require_write_once_witness:
  "fst (SetOnce None (Some (\<lambda>u::unit. 123::int))) = None
   \<and> map_option (\<lambda>dest. dest ()) (snd (SetOnce None (Some (\<lambda>u::unit. 123::int)))) = Some 123
   \<and> fst (SetOnce (Some (\<lambda>u::unit. 123::int)) (Some (\<lambda>u. 987))) = Some catapult_invalid_argument
   \<and> map_option (\<lambda>dest. dest ())
        (snd (SetOnce (Some (\<lambda>u::unit. 123::int)) (Some (\<lambda>u. 987)))) = Some 123
   \<and> map_sum id (\<lambda>func. func ()) (Require (Some (\<lambda>u::unit. 123::int))) = Inr 123
   \<and> Require (None :: (unit \<Rightarrow> int) option) = Inl catapult_invalid_argument"
  using SetOnce_Require_write_once [of "Some (\<lambda>u::unit. 123::int)" "\<lambda>u::unit. 123::int" "[]"]
    SetOnce_Require_write_once [of "Some (\<lambda>u::unit. 987::int)" "\<lambda>u::unit. 123::int" "[]"]
  by (simp add: SetOnce_def Require_def)

end
